theory Spec2Isabelle
  imports Main
begin

section \<open>JavaScript values and the object heap\<close>

text \<open>
  The module under study is \<^verbatim>\<open>lib/connectors/connector.js\<close>: a constructor function whose
  closure variables (\<^verbatim>\<open>id\<close>, \<^verbatim>\<open>label\<close>, \<^verbatim>\<open>steps\<close>, \<^verbatim>\<open>options\<close>) are the private state of a
  connector, and whose methods read and write them. The option bag is a JavaScript object
  that the caller may hand in, so it lives in a heap and is named by its address; every
  property access of the source is an access through that address.

  Values are the data values of the language. Numbers are taken to be integers (no
  fractions, no NaN) and there are no function values: a property never holds a callable.
  Callbacks, which the source only ever invokes, are HOL functions instead.
\<close>

type_synonym addr = nat

datatype jsval = JUndefined | JNull | JBool bool | JNum int | JStr string | JRef addr

text \<open>
  The internal prototype slot of an object: one of the two built-in prototypes an object
  or array literal gives, \<^verbatim>\<open>null\<close>, or another heap object. \<^verbatim>\<open>Array.prototype\<close> inherits from
  \<^verbatim>\<open>Object.prototype\<close>.
\<close>

datatype proto = ObjectPrototype | ArrayPrototype | NullPrototype | ObjProto addr

text \<open>
  An object: its own properties, all of them data properties with string keys; its
  prototype slot; whether it is an array, whose assignments to \<^verbatim>\<open>length\<close> and to indices
  follow rules of their own; whether it is extensible, that is, accepts new properties;
  and which of its own properties are read-only. \<^verbatim>\<open>Object.preventExtensions\<close> clears
  \<open>extensible\<close>, and \<^verbatim>\<open>Object.freeze\<close> also makes every own property read-only.
\<close>

record jsobj =
  props :: "string \<rightharpoonup> jsval"
  prototype :: proto
  is_array :: bool
  extensible :: bool
  readonly :: "string set"

text \<open>
  The heap: the object at every address, and the next address to be allocated. The
  addresses below \<open>fresh\<close> are the allocated ones.
\<close>

record heap =
  objs :: "addr \<Rightarrow> jsobj"
  fresh :: addr

datatype error = TypeError

text \<open>
  A call either returns a value or throws, and both leave a heap behind. The third
  outcome stands for the one kind of step whose result the model does not determine: an
  assignment that the bookkeeping of an array governs (see \<open>define_own\<close> below). Nothing is
  asserted about a call that ends in it.
\<close>

datatype 'a outcome = Returns 'a heap | Throws error heap | Exotic

fun and_then :: "'a outcome \<Rightarrow> ('a \<Rightarrow> heap \<Rightarrow> 'b outcome) \<Rightarrow> 'b outcome" where
  "and_then (Returns x h) f = f x h"
| "and_then (Throws e h) f = Throws e h"
| "and_then Exotic f = Exotic"

text \<open>ToBoolean, as \<^verbatim>\<open>||\<close> applies it to its left operand.\<close>

fun truthy :: "jsval \<Rightarrow> bool" where
  "truthy JUndefined = False"
| "truthy JNull = False"
| "truthy (JBool b) = b"
| "truthy (JNum n) = (n \<noteq> 0)"
| "truthy (JStr s) = (s \<noteq> [])"
| "truthy (JRef a) = True"

text \<open>
  What an object literal with the properties \<open>m\<close> creates, the literals \<^verbatim>\<open>{}\<close> and \<^verbatim>\<open>[]\<close>, and
  the allocation that evaluating a literal performs. An array is held as its index
  properties and its \<^verbatim>\<open>length\<close>.
\<close>

definition object_literal :: "(string \<rightharpoonup> jsval) \<Rightarrow> jsobj" where
  "object_literal m =
     \<lparr>props = m, prototype = ObjectPrototype, is_array = False, extensible = True,
      readonly = {}\<rparr>"

definition empty_object :: jsobj where
  "empty_object = object_literal Map.empty"

definition empty_array :: jsobj where
  "empty_array =
     \<lparr>props = [''length'' \<mapsto> JNum 0], prototype = ArrayPrototype, is_array = True,
      extensible = True, readonly = {}\<rparr>"

definition alloc :: "jsobj \<Rightarrow> heap \<Rightarrow> addr \<times> heap" where
  "alloc ob h = (fresh h, h\<lparr>objs := (objs h)(fresh h := ob), fresh := Suc (fresh h)\<rparr>)"

definition empty_heap :: heap where
  "empty_heap = \<lparr>objs = (\<lambda>a. empty_object), fresh = 0\<rparr>"

subsection \<open>Property lookup along the prototype chain\<close>

text \<open>
  \<open>chain_lookup\<close> is the search for the property \<open>k\<close> that an access to \<^verbatim>\<open>o[k]\<close> starts with:
  the object itself, then each heap object on its prototype chain. It returns the first
  object that has \<open>k\<close> as an own property, or tells how the chain left the heap: through a
  built-in prototype, and so to \<^verbatim>\<open>Object.prototype\<close>, or with \<^verbatim>\<open>null\<close>. Of the properties of
  the two built-in prototypes all that matters below is that they are writable data
  properties, but for \<^verbatim>\<open>__proto__\<close> on \<^verbatim>\<open>Object.prototype\<close>, which is an accessor, and that
  \<^verbatim>\<open>hasOwnProperty\<close> is defined by \<^verbatim>\<open>Object.prototype\<close> only. The first argument bounds the
  number of steps from one object to its prototype. The language refuses to close a
  cycle of prototypes, so a chain visits an allocated object at most once, and the
  accesses below allow \<open>fresh h\<close> steps, one for every allocated object.
\<close>

datatype lookup = Found addr | EndObjectPrototype | EndNull

fun chain_lookup :: "nat \<Rightarrow> (addr \<Rightarrow> jsobj) \<Rightarrow> string \<Rightarrow> addr \<Rightarrow> lookup" where
  "chain_lookup 0 os k a =
     (case props (os a) k of
        Some v \<Rightarrow> Found a
      | None \<Rightarrow> (case prototype (os a) of
          ObjectPrototype \<Rightarrow> EndObjectPrototype
        | ArrayPrototype \<Rightarrow> EndObjectPrototype
        | NullPrototype \<Rightarrow> EndNull
        | ObjProto b \<Rightarrow> EndNull))"
| "chain_lookup (Suc n) os k a =
     (case props (os a) k of
        Some v \<Rightarrow> Found a
      | None \<Rightarrow> (case prototype (os a) of
          ObjectPrototype \<Rightarrow> EndObjectPrototype
        | ArrayPrototype \<Rightarrow> EndObjectPrototype
        | NullPrototype \<Rightarrow> EndNull
        | ObjProto b \<Rightarrow> chain_lookup n os k b))"

text \<open>
  \<^verbatim>\<open>o.hasOwnProperty(k)\<close> for the object \<open>o\<close> at address \<open>a\<close>. The method is looked up on \<open>o\<close>
  itself: only when no object on the chain has a property of that name does the call
  reach the built-in, which tests the own properties of \<open>o\<close>. A data value found under the
  name, or \<^verbatim>\<open>undefined\<close> at the end of a chain that ends in \<^verbatim>\<open>null\<close>, is not callable and the
  call throws a TypeError.
\<close>

definition call_hasOwnProperty :: "heap \<Rightarrow> addr \<Rightarrow> string \<Rightarrow> bool outcome" where
  "call_hasOwnProperty h a k =
     (case chain_lookup (fresh h) (objs h) ''hasOwnProperty'' a of
        EndObjectPrototype \<Rightarrow> Returns (props (objs h a) k \<noteq> None) h
      | Found b \<Rightarrow> Throws TypeError h
      | EndNull \<Rightarrow> Throws TypeError h)"

text \<open>Reading \<^verbatim>\<open>o[k]\<close> where \<open>k\<close> is an own property of \<open>o\<close>.\<close>

definition read_own :: "heap \<Rightarrow> addr \<Rightarrow> string \<Rightarrow> jsval" where
  "read_own h a k = (case props (objs h a) k of Some v \<Rightarrow> v | None \<Rightarrow> JUndefined)"

subsection \<open>Assignment to a property\<close>

definition set_own :: "heap \<Rightarrow> addr \<Rightarrow> string \<Rightarrow> jsval \<Rightarrow> heap" where
  "set_own h a k v =
     h\<lparr>objs := (objs h)(a := (objs h a)\<lparr>props := (props (objs h a))(k \<mapsto> v)\<rparr>)\<rparr>"

definition set_prototype :: "heap \<Rightarrow> addr \<Rightarrow> proto \<Rightarrow> heap" where
  "set_prototype h a p = h\<lparr>objs := (objs h)(a := (objs h a)\<lparr>prototype := p\<rparr>)\<rparr>"

text \<open>
  The keys that an array treats specially: \<^verbatim>\<open>length\<close> and the array indices. Every array
  index is a non-empty string of decimal digits, and all such strings are counted here.
\<close>

definition exotic_key :: "string \<Rightarrow> bool" where
  "exotic_key k = (k = ''length'' \<or> (k \<noteq> [] \<and> list_all (\<lambda>c. c \<in> set ''0123456789'') k))"

text \<open>
  The last step of an assignment that has found no obstacle: the object at \<open>a\<close> receives
  the value \<open>v\<close> under \<open>k\<close>. An array does its own bookkeeping when the key is \<^verbatim>\<open>length\<close> or an
  index (it truncates, extends, or refuses a length after converting the value to a
  number); that conversion depends on the parsing of numerals and on the rounding of
  floating-point numbers, and the outcome is left open. Otherwise an existing property is
  overwritten, and a new one is created if the object is extensible; if it is not, the
  assignment throws a TypeError, as it does in strict code.
\<close>

definition define_own :: "heap \<Rightarrow> addr \<Rightarrow> string \<Rightarrow> jsval \<Rightarrow> unit outcome" where
  "define_own h a k v =
     (if is_array (objs h a) \<and> exotic_key k then Exotic
      else if props (objs h a) k = None \<and> \<not> extensible (objs h a) then Throws TypeError h
      else Returns () (set_own h a k v))"

text \<open>Whether the object at \<open>a\<close> is \<open>b\<close> or lies on the prototype chain of \<open>b\<close>.\<close>

fun on_chain :: "nat \<Rightarrow> (addr \<Rightarrow> jsobj) \<Rightarrow> addr \<Rightarrow> addr \<Rightarrow> bool" where
  "on_chain 0 os a b = (a = b)"
| "on_chain (Suc n) os a b =
     (a = b \<or> (case prototype (os b) of ObjProto c \<Rightarrow> on_chain n os a c | _ \<Rightarrow> False))"

text \<open>
  Replacing the prototype slot of the object at \<open>a\<close>: nothing happens when the new
  prototype is the present one; otherwise a TypeError is thrown when the object is not
  extensible or when the replacement would close a cycle.
\<close>

definition change_prototype :: "heap \<Rightarrow> addr \<Rightarrow> proto \<Rightarrow> unit outcome" where
  "change_prototype h a p =
     (if prototype (objs h a) = p then Returns () h
      else if \<not> extensible (objs h a) then Throws TypeError h
      else if (case p of ObjProto b \<Rightarrow> on_chain (fresh h) (objs h) a b | _ \<Rightarrow> False)
        then Throws TypeError h
      else Returns () (set_prototype h a p))"

text \<open>
  The setter of the accessor \<^verbatim>\<open>Object.prototype.__proto__\<close>, called on the object at \<open>a\<close>: a
  value that is neither an object nor \<^verbatim>\<open>null\<close> is ignored; otherwise the prototype slot is
  replaced.
\<close>

definition proto_setter :: "heap \<Rightarrow> addr \<Rightarrow> jsval \<Rightarrow> unit outcome" where
  "proto_setter h a v =
     (case v of
        JNull \<Rightarrow> change_prototype h a NullPrototype
      | JRef b \<Rightarrow> change_prototype h a (ObjProto b)
      | _ \<Rightarrow> Returns () h)"

text \<open>
  \<^verbatim>\<open>o[k] = v\<close> in strict mode, for the object \<open>o\<close> at address \<open>a\<close>. The property is searched
  along the prototype chain. Where it is found, on \<open>o\<close> or on a prototype, and is
  read-only, the assignment throws a TypeError; where it is found and writable, or not
  found at all, the value is put on \<open>o\<close> itself. The one accessor an object inherits is
  \<^verbatim>\<open>__proto__\<close>: when the search for that name reaches \<^verbatim>\<open>Object.prototype\<close>, the assignment
  calls its setter and creates no property.
\<close>

definition assign_prop :: "heap \<Rightarrow> addr \<Rightarrow> string \<Rightarrow> jsval \<Rightarrow> unit outcome" where
  "assign_prop h a k v =
     (case chain_lookup (fresh h) (objs h) k a of
        Found b \<Rightarrow>
          (if k \<in> readonly (objs h b) then Throws TypeError h else define_own h a k v)
      | EndObjectPrototype \<Rightarrow>
          (if k = ''__proto__'' then proto_setter h a v else define_own h a k v)
      | EndNull \<Rightarrow> define_own h a k v)"

section \<open>The connector\<close>

text \<open>
  The private state of one connector: the closure variables of the constructor, and the
  \<^verbatim>\<open>path\<close> property that callers attach to the instance (\<open>None\<close> while it is absent). After
  construction \<^verbatim>\<open>options\<close> always holds an object, so the record keeps its address.
\<close>

record connector_state =
  c_id :: jsval
  c_label :: jsval
  c_steps :: jsval
  c_options :: addr
  c_path :: "jsval option"

text \<open>
  \<^verbatim>\<open>_.forIn(object, iteratee)\<close> over the properties of \<^verbatim>\<open>defaults\<close> in the order the literal
  lists them. The iteratee of the source returns nothing, so the iteration never stops
  early except by an exception.
\<close>

fun forIn :: "(string \<times> jsval) list \<Rightarrow> (jsval \<Rightarrow> string \<Rightarrow> heap \<Rightarrow> unit outcome) \<Rightarrow> heap
    \<Rightarrow> unit outcome" where
  "forIn [] f h = Returns () h"
| "forIn ((key, value) # rest) f h = and_then (f value key h) (\<lambda>u h'. forIn rest f h')"

text \<open>
  Lines 43 to 47, the body of the iteration:
  \<^verbatim>\<open>if ( !options.hasOwnProperty(key) ){ options[key] = value; }\<close>
\<close>

definition apply_default :: "addr \<Rightarrow> jsval \<Rightarrow> string \<Rightarrow> heap \<Rightarrow> unit outcome" where
  "apply_default a value key h =
     and_then (call_hasOwnProperty h a key)
       (\<lambda>present h'. if present then Returns () h' else assign_prop h' a key value)"

text \<open>
  \<^verbatim>\<open>new connector(options)\<close>, lines 31 to 47. The three literals are allocated in the order
  the source evaluates them: \<^verbatim>\<open>[]\<close> for \<^verbatim>\<open>steps\<close>, \<^verbatim>\<open>{}\<close> when the argument is falsy, and
  \<^verbatim>\<open>[]\<close> inside \<^verbatim>\<open>defaults\<close>. The \<^verbatim>\<open>defaults\<close> object itself never escapes the constructor
  and is kept as a list. A truthy argument that is not an object (\<^verbatim>\<open>true\<close>, a non-zero
  number, a non-empty string) has neither default as an own property of its wrapper, so
  line 45 runs, and assigning to a property of a primitive throws a TypeError in strict
  code.
\<close>

definition connector :: "jsval \<Rightarrow> heap \<Rightarrow> connector_state outcome" where
  "connector opts h =
     (let (s, h1) = alloc empty_array h;
          (options, h2) =
             (if truthy opts then (opts, h1)
              else (let (b, h') = alloc empty_object h1 in (JRef b, h')));
          (d, h3) = alloc empty_array h2;
          defaults = [(''useOAuth'', JBool True), (''extraRequiredFields'', JRef d)]
      in case options of
           JRef a \<Rightarrow>
             and_then (forIn defaults (apply_default a) h3)
               (\<lambda>u h4. Returns \<lparr>c_id = JNull, c_label = JNull, c_steps = JRef s,
                                  c_options = a, c_path = None\<rparr> h4)
         | _ \<Rightarrow> Throws TypeError h3)"

subsection \<open>Accessors\<close>

definition getId :: "connector_state \<Rightarrow> jsval" where
  "getId c = c_id c"

definition setId :: "jsval \<Rightarrow> connector_state \<Rightarrow> connector_state" where
  "setId v c = c\<lparr>c_id := v\<rparr>"

definition setOption :: "connector_state \<Rightarrow> string \<Rightarrow> jsval \<Rightarrow> heap \<Rightarrow> unit outcome" where
  "setOption c key value h = assign_prop h (c_options c) key value"

definition getOption :: "connector_state \<Rightarrow> string \<Rightarrow> heap \<Rightarrow> jsval outcome" where
  "getOption c key h =
     and_then (call_hasOwnProperty h (c_options c) key)
       (\<lambda>present h'. Returns (if present then read_own h' (c_options c) key else JNull) h')"

definition getLabel :: "connector_state \<Rightarrow> jsval" where
  "getLabel c = c_label c"

definition setLabel :: "jsval \<Rightarrow> connector_state \<Rightarrow> connector_state" where
  "setLabel v c = c\<lparr>c_label := v\<rparr>"

definition setSteps :: "jsval \<Rightarrow> connector_state \<Rightarrow> connector_state" where
  "setSteps v c = c\<lparr>c_steps := v\<rparr>"

definition getSteps :: "connector_state \<Rightarrow> jsval" where
  "getSteps c = c_steps c"

subsection \<open>Lifecycle and authentication defaults\<close>

text \<open>
  A callback is a function of the argument list it is called with and of the world it
  runs in; what it returns is both its result and the world it leaves. \<^verbatim>\<open>return cb(...)\<close>
  hands the world to the callback and returns whatever the callback does, an exception
  included. Where the method allocates, the world is the heap together with a part \<open>'u\<close>
  that only the callback knows.
\<close>

definition runStarted :: "(jsval list \<Rightarrow> 'w \<Rightarrow> 'r) \<Rightarrow> 'w \<Rightarrow> 'r" where
  "runStarted readyCallback w = readyCallback [] w"

text \<open>The literal \<^verbatim>\<open>{ message : 'Not Authorized', code: 401 }\<close>.\<close>

definition unauthorized :: jsobj where
  "unauthorized =
     object_literal [''message'' \<mapsto> JStr ''Not Authorized'', ''code'' \<mapsto> JNum 401]"

definition authCallback ::
    "jsval \<Rightarrow> jsval \<Rightarrow> (jsval list \<Rightarrow> heap \<times> 'u \<Rightarrow> 'r) \<Rightarrow> heap \<times> 'u \<Rightarrow> 'r" where
  "authCallback oAuthCode pipeId callback w =
     (let (e, h') = alloc unauthorized (fst w) in callback [JRef e] (h', snd w))"

definition connectDataSource ::
    "jsval \<Rightarrow> jsval \<Rightarrow> jsval \<Rightarrow> jsval \<Rightarrow> (jsval list \<Rightarrow> heap \<times> 'u \<Rightarrow> 'r) \<Rightarrow> heap \<times> 'u \<Rightarrow> 'r"
    where
  "connectDataSource req res pipeId url callback w =
     (let (e, h') = alloc unauthorized (fst w) in callback [JRef e] (h', snd w))"

definition getPassportStrategy :: "jsval \<Rightarrow> jsval" where
  "getPassportStrategy pipe = JNull"

definition getPassportAuthorizationParams :: "heap \<Rightarrow> jsval \<times> heap" where
  "getPassportAuthorizationParams h = (let (a, h') = alloc empty_object h in (JRef a, h'))"

definition passportAuthCallbackPostProcessing ::
    "jsval \<Rightarrow> jsval \<Rightarrow> (jsval list \<Rightarrow> 'w \<Rightarrow> 'r) \<Rightarrow> 'w \<Rightarrow> 'r" where
  "passportAuthCallbackPostProcessing info pipe callback w = callback [] w"

text \<open>
  A callback that does nothing but append the arguments of each invocation to a log kept
  in its part of the world: the log after a method has run lists the invocations the
  method made.
\<close>

definition log_call :: "jsval list \<Rightarrow> heap \<times> jsval list list \<Rightarrow> jsval \<times> heap \<times> jsval list list"
    where
  "log_call args w = (JUndefined, fst w, snd w @ [args])"

subsection \<open>Serialization\<close>

text \<open>\<^verbatim>\<open>this.path || null\<close>: reading an absent property gives \<^verbatim>\<open>undefined\<close>.\<close>

definition read_path :: "connector_state \<Rightarrow> jsval" where
  "read_path c = (case c_path c of Some v \<Rightarrow> v | None \<Rightarrow> JUndefined)"

definition or_null :: "jsval \<Rightarrow> jsval" where
  "or_null v = (if truthy v then v else JNull)"

definition toJSON :: "connector_state \<Rightarrow> heap \<Rightarrow> jsval \<times> heap" where
  "toJSON c h =
     (let (a, h') =
        alloc (object_literal
                 [''id'' \<mapsto> getId c, ''label'' \<mapsto> getLabel c, ''steps'' \<mapsto> getSteps c,
                  ''options'' \<mapsto> JRef (c_options c), ''path'' \<mapsto> or_null (read_path c)]) h
      in (JRef a, h'))"

section \<open>Notions used to state the properties\<close>

fun thrown :: "'a outcome \<Rightarrow> error option" where
  "thrown (Throws e h) = Some e"
| "thrown (Returns x h) = None"
| "thrown Exotic = None"


text \<open>
  Whether the prototype chain of the object at \<open>a\<close> leaves the heap, for a built-in
  prototype or \<^verbatim>\<open>null\<close>, after at most \<open>n\<close> steps.
\<close>

fun chain_ends :: "nat \<Rightarrow> (addr \<Rightarrow> jsobj) \<Rightarrow> addr \<Rightarrow> bool" where
  "chain_ends 0 os a = (case prototype (os a) of ObjProto b \<Rightarrow> False | _ \<Rightarrow> True)"
| "chain_ends (Suc n) os a =
     (case prototype (os a) of ObjProto b \<Rightarrow> chain_ends n os b | _ \<Rightarrow> True)"

text \<open>
  A plain object is what an object literal or \<^verbatim>\<open>JSON.parse\<close> gives, as long as it has no
  own property named \<^verbatim>\<open>hasOwnProperty\<close>: its prototype is \<^verbatim>\<open>Object.prototype\<close>, so that
  \<^verbatim>\<open>o.hasOwnProperty\<close> is the built-in; it is not an array; it is extensible and none of its
  properties is read-only. A plain bag is an allocated plain object.
\<close>

definition plain_object :: "jsobj \<Rightarrow> bool" where
  "plain_object ob =
     (prototype ob = ObjectPrototype \<and> props ob ''hasOwnProperty'' = None
      \<and> \<not> is_array ob \<and> extensible ob \<and> readonly ob = {})"

definition plain_bag :: "heap \<Rightarrow> addr \<Rightarrow> bool" where
  "plain_bag h a = (a < fresh h \<and> plain_object (objs h a))"

text \<open>The bindings of \<^verbatim>\<open>defaults\<close>, whose array literal was allocated at \<open>d\<close>.\<close>

definition defaults_at :: "addr \<Rightarrow> string \<rightharpoonup> jsval" where
  "defaults_at d = [''useOAuth'' \<mapsto> JBool True, ''extraRequiredFields'' \<mapsto> JRef d]"

text \<open>
  The heap \<open>h\<close> after the object at \<open>a\<close> has received every default it did not bind itself
  (in \<open>m ++ n\<close> the bindings of \<open>n\<close> win).
\<close>

definition with_defaults :: "heap \<Rightarrow> addr \<Rightarrow> addr \<Rightarrow> heap" where
  "with_defaults h a d =
     h\<lparr>objs := (objs h)(a := (objs h a)\<lparr>props := defaults_at d ++ props (objs h a)\<rparr>)\<rparr>"

text \<open>
  Heaps for the scenarios. \<open>token_heap\<close> holds the array \<^verbatim>\<open>['token']\<close> at address 0 and the
  object \<^verbatim>\<open>{ extraRequiredFields: ['token'] }\<close> at address 1; \<open>override_heap\<close> holds
  \<^verbatim>\<open>{ useOAuth: false }\<close>; \<open>shadow_heap\<close> holds \<^verbatim>\<open>{ hasOwnProperty: 1 }\<close>;
  \<open>override_shadow_heap\<close> holds \<^verbatim>\<open>{ useOAuth: false, hasOwnProperty: 1 }\<close>; and \<open>frozen_heap\<close>
  holds \<^verbatim>\<open>Object.freeze({})\<close>, each at address 0.
\<close>

definition token_heap :: heap where
  "token_heap =
     \<lparr>objs = (\<lambda>a. empty_object)
        (0 := \<lparr>props = [''0'' \<mapsto> JStr ''token'', ''length'' \<mapsto> JNum 1],
                prototype = ArrayPrototype, is_array = True, extensible = True,
                readonly = {}\<rparr>,
         1 := object_literal [''extraRequiredFields'' \<mapsto> JRef 0]),
      fresh = 2\<rparr>"


definition shadow_heap :: heap where
  "shadow_heap =
     \<lparr>objs = (\<lambda>a. empty_object)(0 := object_literal [''hasOwnProperty'' \<mapsto> JNum 1]),
      fresh = 1\<rparr>"

definition override_shadow_heap :: heap where
  "override_shadow_heap =
     \<lparr>objs = (\<lambda>a. empty_object)
        (0 := object_literal [''useOAuth'' \<mapsto> JBool False, ''hasOwnProperty'' \<mapsto> JNum 1]),
      fresh = 1\<rparr>"

definition frozen_heap :: heap where
  "frozen_heap =
     \<lparr>objs = (\<lambda>a. empty_object)(0 := empty_object\<lparr>extensible := False\<rparr>), fresh = 1\<rparr>"

text \<open>
  \<^verbatim>\<open>c = new connector()\<close> on the empty heap: the connector and the heap it leaves, with the
  array of \<^verbatim>\<open>steps\<close> at address 0, the new bag at 1 and the array of \<^verbatim>\<open>defaults\<close> at 2.
\<close>

definition new_connector :: connector_state where
  "new_connector =
     \<lparr>c_id = JNull, c_label = JNull, c_steps = JRef 0, c_options = 1, c_path = None\<rparr>"

definition new_connector_heap :: heap where
  "new_connector_heap =
     \<lparr>objs = (\<lambda>a. empty_object)
        (0 := empty_array, 1 := object_literal (defaults_at 2), 2 := empty_array),
      fresh = 3\<rparr>"

text \<open>
  The heap after \<^verbatim>\<open>c.setOption('hasOwnProperty', 1)\<close> on that connector: the bag now has an own
  property named \<^verbatim>\<open>hasOwnProperty\<close>.
\<close>

definition shadowed_connector_heap :: heap where
  "shadowed_connector_heap = set_own new_connector_heap 1 ''hasOwnProperty'' (JNum 1)"

section \<open>Property access\<close>

lemma chain_lookup_own:
  "props (os a) k = Some v \<Longrightarrow> chain_lookup n os k a = Found a"
  by (cases n) simp_all

lemma chain_lookup_ObjectPrototype:
  "props (os a) k = None \<Longrightarrow> prototype (os a) = ObjectPrototype
   \<Longrightarrow> chain_lookup n os k a = EndObjectPrototype"
  by (cases n) simp_all

lemma chain_lookup_ArrayPrototype:
  "props (os a) k = None \<Longrightarrow> prototype (os a) = ArrayPrototype
   \<Longrightarrow> chain_lookup n os k a = EndObjectPrototype"
  by (cases n) simp_all

lemma chain_lookup_NullPrototype:
  "props (os a) k = None \<Longrightarrow> prototype (os a) = NullPrototype
   \<Longrightarrow> chain_lookup n os k a = EndNull"
  by (cases n) simp_all

text \<open>
  The bound on the number of steps is immaterial once the chain ends within it: a larger
  bound gives the same search and the same cycle test.
\<close>

lemma chain_lookup_fuel:
  "chain_ends n os a \<Longrightarrow> n \<le> m \<Longrightarrow> chain_lookup m os k a = chain_lookup n os k a"
proof (induction n arbitrary: a m)
  case 0
  then show ?case
    by (cases m) (auto split: option.splits proto.splits)
next
  case (Suc n)
  then obtain m' where m: "m = Suc m'" and le: "n \<le> m'"
    by (cases m) auto
  show ?case
  proof (cases "prototype (os a)")
    case (ObjProto b)
    with Suc.prems have "chain_ends n os b"
      by simp
    then have "chain_lookup m' os k b = chain_lookup n os k b"
      using le by (rule Suc.IH)
    with ObjProto m show ?thesis
      by (simp split: option.splits)
  qed (simp_all add: m split: option.splits)
qed

lemma on_chain_fuel:
  "chain_ends n os b \<Longrightarrow> n \<le> m \<Longrightarrow> on_chain m os a b = on_chain n os a b"
proof (induction n arbitrary: b m)
  case 0
  then show ?case
    by (cases m) (auto split: proto.splits)
next
  case (Suc n)
  then obtain m' where m: "m = Suc m'" and le: "n \<le> m'"
    by (cases m) auto
  show ?case
  proof (cases "prototype (os b)")
    case (ObjProto c)
    with Suc.prems have "chain_ends n os c"
      by simp
    then have "on_chain m' os a c = on_chain n os a c"
      using le by (rule Suc.IH)
    with ObjProto m show ?thesis
      by simp
  qed (simp_all add: m)
qed

lemma call_hasOwnProperty_plain:
  assumes "prototype (objs h a) = ObjectPrototype"
    and "props (objs h a) ''hasOwnProperty'' = None"
  shows "call_hasOwnProperty h a k = Returns (props (objs h a) k \<noteq> None) h"
  using assms by (simp add: call_hasOwnProperty_def chain_lookup_ObjectPrototype)

lemma call_hasOwnProperty_shadowed:
  assumes "props (objs h a) ''hasOwnProperty'' = Some v"
  shows "call_hasOwnProperty h a k = Throws TypeError h"
  using assms by (simp add: call_hasOwnProperty_def chain_lookup_own)





text \<open>On a plain object such an assignment does return.\<close>

lemma assign_prop_plain:
  assumes "plain_object (objs h a)" and "k \<noteq> ''__proto__''"
  shows "assign_prop h a k v = Returns () (set_own h a k v)"
proof (cases "props (objs h a) k")
  case None
  with assms have "chain_lookup (fresh h) (objs h) k a = EndObjectPrototype"
    by (simp add: plain_object_def chain_lookup_ObjectPrototype)
  with assms show ?thesis
    by (simp add: assign_prop_def define_own_def plain_object_def)
next
  case (Some w)
  then have "chain_lookup (fresh h) (objs h) k a = Found a"
    by (rule chain_lookup_own)
  with assms Some show ?thesis
    by (simp add: assign_prop_def define_own_def plain_object_def)
qed

lemma plain_object_set_own:
  assumes "plain_object (objs h a)" and "k \<noteq> ''hasOwnProperty''"
  shows "plain_object (objs (set_own h a k v) a)"
  using assms by (simp add: plain_object_def set_own_def)

text \<open>
  What the model says of the bags that are not plain. On a frozen object the creation of
  a property throws; on an array an assignment to \<^verbatim>\<open>length\<close> or to an index is left open,
  and an assignment to another key is an ordinary one.
\<close>

lemma assign_prop_frozen:
  "assign_prop frozen_heap 0 ''useOAuth'' (JBool True) = Throws TypeError frozen_heap"
  by (simp add: assign_prop_def frozen_heap_def empty_object_def object_literal_def
        define_own_def)

lemma assign_prop_array:
  "assign_prop token_heap 0 ''length'' (JNum 0) = Exotic"
  "assign_prop token_heap 0 ''7'' (JStr ''x'') = Exotic"
  "assign_prop token_heap 0 ''useOAuth'' (JBool True)
     = Returns () (set_own token_heap 0 ''useOAuth'' (JBool True))"
  by (simp_all add: assign_prop_def token_heap_def define_own_def exotic_key_def
        chain_lookup_own chain_lookup_ArrayPrototype)

section \<open>Option accessors on a plain bag\<close>

lemma getOption_plain:
  assumes "prototype (objs h (c_options c)) = ObjectPrototype"
    and "props (objs h (c_options c)) ''hasOwnProperty'' = None"
  shows "getOption c k h =
           Returns (case props (objs h (c_options c)) k of Some v \<Rightarrow> v | None \<Rightarrow> JNull) h"
  using assms
  by (simp add: getOption_def call_hasOwnProperty_plain read_own_def split: option.splits)

lemma setOption_plain:
  assumes "plain_object (objs h (c_options c))" and "k \<noteq> ''__proto__''"
  shows "setOption c k v h = Returns () (set_own h (c_options c) k v)"
  using assms by (simp add: setOption_def assign_prop_plain)


text \<open>
  On a plain bag, and for a key other than the two names with a meaning of their own,
  \<^verbatim>\<open>setOption(k, v)\<close> followed by \<^verbatim>\<open>getOption(k)\<close> returns \<open>v\<close>.
\<close>

lemma setOption_getOption_plain:
  assumes "plain_object (objs h (c_options c))"
    and "k \<noteq> ''__proto__''" and "k \<noteq> ''hasOwnProperty''"
  shows "and_then (setOption c k v h) (\<lambda>u h'. getOption c k h')
           = Returns v (set_own h (c_options c) k v)"
proof -
  let ?h' = "set_own h (c_options c) k v"
  have "prototype (objs ?h' (c_options c)) = ObjectPrototype"
    and "props (objs ?h' (c_options c)) ''hasOwnProperty'' = None"
    and "props (objs ?h' (c_options c)) k = Some v"
    using assms by (simp_all add: set_own_def plain_object_def)
  then have "getOption c k ?h' = Returns v ?h'"
    by (simp add: getOption_plain)
  then show ?thesis
    using assms by (simp add: setOption_plain)
qed

lemma getOption_absent_plain:
  assumes "prototype (objs h (c_options c)) = ObjectPrototype"
    and "props (objs h (c_options c)) ''hasOwnProperty'' = None"
    and "props (objs h (c_options c)) k = None"
  shows "getOption c k h = Returns JNull h"
  using assms by (simp add: getOption_plain)

section \<open>Construction\<close>

lemma apply_default_plain:
  assumes "plain_object (objs h a)" and "k \<noteq> ''__proto__''"
  shows "apply_default a v k h =
           Returns () (if props (objs h a) k \<noteq> None then h else set_own h a k v)"
  using assms
  by (simp add: apply_default_def call_hasOwnProperty_plain assign_prop_plain plain_object_def)



text \<open>
  The two steps of the loop over \<^verbatim>\<open>defaults\<close>, each adding its default unless the bag binds
  the key, add exactly the defaults that the bag does not bind and change nothing else.
\<close>

lemma defaults_steps:
  assumes "h1 = (if props (objs h a) ''useOAuth'' \<noteq> None then h
                 else set_own h a ''useOAuth'' (JBool True))"
    and "h2 = (if props (objs h1 a) ''extraRequiredFields'' \<noteq> None then h1
               else set_own h1 a ''extraRequiredFields'' (JRef d))"
  shows "h2 = with_defaults h a d"
proof -
  have "props (objs h2 a) = defaults_at d ++ props (objs h a)"
    by (auto simp: assms set_own_def defaults_at_def map_add_def fun_eq_iff
          split: option.splits)
  moreover have "jsobj.more (objs h2 a) = jsobj.more (objs h a)"
    and "prototype (objs h2 a) = prototype (objs h a)"
    and "is_array (objs h2 a) = is_array (objs h a)"
    and "extensible (objs h2 a) = extensible (objs h a)"
    and "readonly (objs h2 a) = readonly (objs h a)"
    by (simp_all add: assms set_own_def)
  moreover have "\<And>b. b \<noteq> a \<Longrightarrow> objs h2 b = objs h b"
    by (simp add: assms set_own_def)
  moreover have "fresh h2 = fresh h"
    by (simp add: assms set_own_def)
  ultimately show ?thesis
    unfolding with_defaults_def
    by (intro heap.equality) (auto simp: fun_eq_iff intro: jsobj.equality)
qed

lemma forIn_defaults_plain:
  assumes "plain_object (objs h a)"
  shows "forIn [(''useOAuth'', JBool True), (''extraRequiredFields'', JRef d)] (apply_default a) h
           = Returns () (with_defaults h a d)"
proof -
  define h1 where
    "h1 = (if props (objs h a) ''useOAuth'' \<noteq> None then h
           else set_own h a ''useOAuth'' (JBool True))"
  define h2 where
    "h2 = (if props (objs h1 a) ''extraRequiredFields'' \<noteq> None then h1
           else set_own h1 a ''extraRequiredFields'' (JRef d))"
  have step1: "apply_default a (JBool True) ''useOAuth'' h = Returns () h1"
    using assms by (simp add: apply_default_plain h1_def)
  have "plain_object (objs h1 a)"
    using assms by (simp add: h1_def plain_object_set_own)
  then have step2: "apply_default a (JRef d) ''extraRequiredFields'' h1 = Returns () h2"
    by (simp add: apply_default_plain h2_def)
  have "h2 = with_defaults h a d"
    using h1_def h2_def by (rule defaults_steps)
  then show ?thesis
    by (simp add: step1 step2)
qed



text \<open>Construction with a plain bag: the bag is adopted and completed in place.\<close>

lemma connector_plain_bag:
  assumes "plain_bag h a"
  shows "connector (JRef a) h =
           Returns \<lparr>c_id = JNull, c_label = JNull, c_steps = JRef (fresh h), c_options = a,
                     c_path = None\<rparr>
             (with_defaults (snd (alloc empty_array (snd (alloc empty_array h)))) a
                (Suc (fresh h)))"
proof -
  define h3 where "h3 = snd (alloc empty_array (snd (alloc empty_array h)))"
  have "objs h3 a = objs h a"
    using assms by (simp add: h3_def alloc_def plain_bag_def)
  then have "plain_object (objs h3 a)"
    using assms by (simp add: plain_bag_def)
  then have "forIn [(''useOAuth'', JBool True), (''extraRequiredFields'', JRef (Suc (fresh h)))]
               (apply_default a) h3 = Returns () (with_defaults h3 a (Suc (fresh h)))"
    by (rule forIn_defaults_plain)
  then show ?thesis
    by (simp add: connector_def alloc_def h3_def)
qed



text \<open>Construction with a falsy argument: a new bag, holding the defaults.\<close>

lemma connector_falsy:
  assumes "\<not> truthy opts"
  shows "connector opts h =
           Returns \<lparr>c_id = JNull, c_label = JNull, c_steps = JRef (fresh h),
                     c_options = Suc (fresh h), c_path = None\<rparr>
             (with_defaults
                (snd (alloc empty_array (snd (alloc empty_object (snd (alloc empty_array h))))))
                (Suc (fresh h)) (Suc (Suc (fresh h))))"
proof -
  define h3 where
    "h3 = snd (alloc empty_array (snd (alloc empty_object (snd (alloc empty_array h)))))"
  have "objs h3 (Suc (fresh h)) = empty_object"
    by (simp add: h3_def alloc_def)
  then have "plain_object (objs h3 (Suc (fresh h)))"
    by (simp add: empty_object_def object_literal_def plain_object_def)
  then have "forIn [(''useOAuth'', JBool True),
                    (''extraRequiredFields'', JRef (Suc (Suc (fresh h))))]
               (apply_default (Suc (fresh h))) h3
             = Returns () (with_defaults h3 (Suc (fresh h)) (Suc (Suc (fresh h))))"
    by (rule forIn_defaults_plain)
  then show ?thesis
    using assms by (simp add: connector_def alloc_def h3_def)
qed

text \<open>Construction with a truthy value that is not an object throws.\<close>

lemma connector_truthy_primitive:
  assumes "truthy opts" and "\<forall>a. opts \<noteq> JRef a"
  shows "thrown (connector opts h) = Some TypeError"
  using assms by (cases opts) (simp_all add: connector_def alloc_def)


text \<open>Construction with a frozen object throws: no default can be added to it.\<close>

lemma connector_frozen_bag_throws:
  "thrown (connector (JRef 0) frozen_heap) = Some TypeError"
  by (simp add: connector_def alloc_def frozen_heap_def empty_object_def object_literal_def
        apply_default_def call_hasOwnProperty_plain assign_prop_def chain_lookup_ObjectPrototype
        define_own_def)

lemma new_connector_eq:
  "connector JUndefined empty_heap = Returns new_connector new_connector_heap"
proof -
  have "with_defaults
          (snd (alloc empty_array (snd (alloc empty_object (snd (alloc empty_array empty_heap))))))
          (Suc (fresh empty_heap)) (Suc (Suc (fresh empty_heap))) = new_connector_heap"
    unfolding with_defaults_def new_connector_heap_def
    by (intro heap.equality)
       (auto simp: alloc_def empty_heap_def empty_object_def object_literal_def fun_eq_iff
          numeral_2_eq_2 numeral_3_eq_3)
  then show ?thesis
    by (simp add: connector_falsy new_connector_def empty_heap_def)
qed

lemma new_connector_bag_plain:
  "plain_object (objs new_connector_heap (c_options new_connector))"
  by (simp add: plain_object_def new_connector_heap_def new_connector_def object_literal_def
        defaults_at_def)

text \<open>
  What a connector built on a plain bag answers for any key: the caller's binding where
  there is one, else the default, else \<^verbatim>\<open>null\<close>.
\<close>

lemma getOption_after_construction:
  assumes "plain_bag h a"
  shows "and_then (connector (JRef a) h) (\<lambda>c h'. getOption c k h')
           = Returns (case (defaults_at (Suc (fresh h)) ++ props (objs h a)) k of
                        Some v \<Rightarrow> v
                      | None \<Rightarrow> JNull)
               (with_defaults (snd (alloc empty_array (snd (alloc empty_array h)))) a
                  (Suc (fresh h)))"
proof -
  let ?h' = "with_defaults (snd (alloc empty_array (snd (alloc empty_array h)))) a (Suc (fresh h))"
  let ?c = "\<lparr>c_id = JNull, c_label = JNull, c_steps = JRef (fresh h), c_options = a,
             c_path = None\<rparr>"
  have bag: "props (objs ?h' a) = defaults_at (Suc (fresh h)) ++ props (objs h a)"
    and "prototype (objs ?h' a) = ObjectPrototype"
    using assms by (simp_all add: with_defaults_def alloc_def plain_bag_def plain_object_def)
  moreover from bag have "props (objs ?h' a) ''hasOwnProperty'' = None"
    using assms by (simp add: plain_bag_def plain_object_def defaults_at_def map_add_def)
  ultimately have "getOption ?c k ?h'
      = Returns (case (defaults_at (Suc (fresh h)) ++ props (objs h a)) k of
                   Some v \<Rightarrow> v | None \<Rightarrow> JNull) ?h'"
    by (simp add: getOption_plain)
  then show ?thesis
    using assms by (simp add: connector_plain_bag)
qed

lemma default_applies_when_absent:
  assumes "plain_bag h a" and "props (objs h a) ''useOAuth'' = None"
  shows "\<exists>h'. and_then (connector (JRef a) h) (\<lambda>c h'. getOption c ''useOAuth'' h')
           = Returns (JBool True) h'"
  using assms by (simp add: getOption_after_construction defaults_at_def map_add_def)

lemma caller_binding_wins:
  assumes "plain_bag h a" and "props (objs h a) k = Some v"
  shows "\<exists>h'. and_then (connector (JRef a) h) (\<lambda>c h'. getOption c k h') = Returns v h'"
  using assms by (simp add: getOption_after_construction map_add_def)

text \<open>
  The scenario \<^verbatim>\<open>new connector({ extraRequiredFields: ['token'] })\<close>: the connector answers
  with the caller's array, which construction has not touched, and with the default
  \<^verbatim>\<open>true\<close> for \<^verbatim>\<open>useOAuth\<close>.
\<close>

lemma construct_with_token_field:
  "\<exists>h'. and_then (connector (JRef 1) token_heap) (\<lambda>c h'. getOption c ''extraRequiredFields'' h')
           = Returns (JRef 0) h' \<and> objs h' 0 = objs token_heap 0"
  "\<exists>h'. and_then (connector (JRef 1) token_heap) (\<lambda>c h'. getOption c ''useOAuth'' h')
           = Returns (JBool True) h'"
  by (simp_all add: getOption_after_construction plain_bag_def plain_object_def token_heap_def
        object_literal_def defaults_at_def map_add_def with_defaults_def alloc_def)

text \<open>
  C1. Claimed: for every options object that lacks the key \<^verbatim>\<open>useOAuth\<close>, the constructed
  connector answers \<^verbatim>\<open>true\<close> for \<^verbatim>\<open>getOption('useOAuth')\<close>, and a missing
  \<^verbatim>\<open>extraRequiredFields\<close> defaults to the empty sequence. On plain bags this is
  \<open>default_applies_when_absent\<close> and \<open>construct_with_token_field\<close>. It does not hold for every
  options object: line 44 calls \<^verbatim>\<open>hasOwnProperty\<close> through the bag itself, so on the object
  \<^verbatim>\<open>{ hasOwnProperty: 1 }\<close>, which lacks \<^verbatim>\<open>useOAuth\<close>, the first iteration of the loop throws
  a TypeError and no connector is constructed.
\<close>

theorem connector_shadowed_bag_throws:
  "props (objs shadow_heap 0) ''useOAuth'' = None
   \<and> thrown (connector (JRef 0) shadow_heap) = Some TypeError"
  by (simp add: shadow_heap_def object_literal_def connector_def alloc_def apply_default_def
        call_hasOwnProperty_shadowed)

text \<open>
  C2. Claimed: for every options object that binds a default key itself, for instance
  \<^verbatim>\<open>useOAuth: false\<close>, construction keeps the caller's value, and every default key is
  present afterwards. On plain bags this is \<open>caller_binding_wins\<close> and
  \<open>getOption_after_construction\<close>. It does not hold for every such object: on
  \<^verbatim>\<open>{ useOAuth: false, hasOwnProperty: 1 }\<close> the call of line 44 throws a TypeError, for
  the same reason as in C1.
\<close>

theorem connector_override_shadowed_throws:
  "props (objs override_shadow_heap 0) ''useOAuth'' = Some (JBool False)
   \<and> thrown (connector (JRef 0) override_shadow_heap) = Some TypeError"
  by (simp add: override_shadow_heap_def object_literal_def connector_def alloc_def
        apply_default_def call_hasOwnProperty_shadowed)




section \<open>Options\<close>

text \<open>
  C5. Claimed: for every key that is not in the bag, \<^verbatim>\<open>getOption\<close> returns \<^verbatim>\<open>null\<close> and does
  not throw, on every connector. On a plain bag this is \<open>getOption_absent_plain\<close>. It does
  not hold on every connector: \<^verbatim>\<open>getOption\<close> calls \<^verbatim>\<open>hasOwnProperty\<close> through the bag (line
  74), and \<^verbatim>\<open>setOption\<close> accepts that name as a key. After
  \<^verbatim>\<open>c = new connector(); c.setOption('hasOwnProperty', 1)\<close> the key \<^verbatim>\<open>missing\<close> is not in the
  bag and \<^verbatim>\<open>c.getOption('missing')\<close> throws a TypeError.
\<close>

theorem getOption_absent_key_throws:
  "connector JUndefined empty_heap = Returns new_connector new_connector_heap
   \<and> setOption new_connector ''hasOwnProperty'' (JNum 1) new_connector_heap
       = Returns () shadowed_connector_heap
   \<and> props (objs shadowed_connector_heap (c_options new_connector)) ''missing'' = None
   \<and> getOption new_connector ''missing'' shadowed_connector_heap
       = Throws TypeError shadowed_connector_heap"
proof -
  have "props (objs shadowed_connector_heap (c_options new_connector)) ''hasOwnProperty''
          = Some (JNum 1)"
    by (simp add: shadowed_connector_heap_def set_own_def new_connector_def)
  then have "getOption new_connector ''missing'' shadowed_connector_heap
          = Throws TypeError shadowed_connector_heap"
    by (simp add: getOption_def call_hasOwnProperty_shadowed)
  moreover have "props (objs shadowed_connector_heap (c_options new_connector)) ''missing'' = None"
    by (simp add: shadowed_connector_heap_def set_own_def new_connector_def
          new_connector_heap_def object_literal_def defaults_at_def)
  moreover have "setOption new_connector ''hasOwnProperty'' (JNum 1) new_connector_heap
          = Returns () shadowed_connector_heap"
    using setOption_plain [OF new_connector_bag_plain, of "''hasOwnProperty''" "JNum 1"]
    by (simp add: shadowed_connector_heap_def new_connector_def)
  ultimately show ?thesis
    by (simp add: new_connector_eq)
qed

text \<open>
  C6. Claimed: for every key \<open>k\<close> and value \<open>v\<close>, \<^verbatim>\<open>setOption(k, v)\<close> followed by
  \<^verbatim>\<open>getOption(k)\<close> returns \<open>v\<close>, whatever the bag held before. On a plain bag and for the
  other keys this is \<open>setOption_getOption_plain\<close>. It fails for two keys. After
  \<^verbatim>\<open>c.setOption('hasOwnProperty', 1)\<close> the call \<^verbatim>\<open>c.getOption('hasOwnProperty')\<close> throws a
  TypeError, as in C5. And \<^verbatim>\<open>c.setOption('__proto__', 5)\<close> runs the inherited setter, which
  ignores a number and stores nothing, so that \<^verbatim>\<open>c.getOption('__proto__')\<close> returns \<^verbatim>\<open>null\<close>.
\<close>

theorem setOption_getOption_fails:
  "setOption new_connector ''hasOwnProperty'' (JNum 1) new_connector_heap
       = Returns () shadowed_connector_heap
   \<and> getOption new_connector ''hasOwnProperty'' shadowed_connector_heap
       = Throws TypeError shadowed_connector_heap
   \<and> setOption new_connector ''__proto__'' (JNum 5) new_connector_heap
       = Returns () new_connector_heap
   \<and> getOption new_connector ''__proto__'' new_connector_heap
       = Returns JNull new_connector_heap"
proof -
  have own: "props (objs shadowed_connector_heap (c_options new_connector)) ''hasOwnProperty''
          = Some (JNum 1)"
    by (simp add: shadowed_connector_heap_def set_own_def new_connector_def)
  have plain: "prototype (objs new_connector_heap (c_options new_connector)) = ObjectPrototype"
    "props (objs new_connector_heap (c_options new_connector)) ''hasOwnProperty'' = None"
    "props (objs new_connector_heap (c_options new_connector)) ''__proto__'' = None"
    by (simp_all add: new_connector_heap_def new_connector_def object_literal_def
          defaults_at_def)
  have "setOption new_connector ''hasOwnProperty'' (JNum 1) new_connector_heap
          = Returns () shadowed_connector_heap"
    using setOption_plain [OF new_connector_bag_plain, of "''hasOwnProperty''" "JNum 1"]
    by (simp add: shadowed_connector_heap_def new_connector_def)
  moreover from own have "getOption new_connector ''hasOwnProperty'' shadowed_connector_heap
          = Throws TypeError shadowed_connector_heap"
    by (simp add: getOption_def call_hasOwnProperty_shadowed)
  moreover from plain have "setOption new_connector ''__proto__'' (JNum 5) new_connector_heap
          = Returns () new_connector_heap"
    by (simp add: setOption_def assign_prop_def chain_lookup_ObjectPrototype proto_setter_def)
  moreover from plain have "getOption new_connector ''__proto__'' new_connector_heap
          = Returns JNull new_connector_heap"
    by (simp add: getOption_absent_plain)
  ultimately show ?thesis
    by simp
qed

section \<open>Steps\<close>

text \<open>
  C7. For every value \<open>S\<close>, \<^verbatim>\<open>setSteps(S)\<close> followed by \<^verbatim>\<open>getSteps()\<close> returns \<open>S\<close> itself: the
  same reference, whatever sequence was stored before, which is replaced wholesale.
  Neither method takes the heap, so the sequence that \<open>S\<close> refers to is untouched, and the
  rest of the connector's state stays as it was.
\<close>

theorem setSteps_getSteps:
  "getSteps (setSteps S c) = S
   \<and> getSteps (setSteps S (setSteps T c)) = S
   \<and> setSteps S (setSteps T c) = setSteps S c
   \<and> getId (setSteps S c) = getId c \<and> getLabel (setSteps S c) = getLabel c
   \<and> c_options (setSteps S c) = c_options c \<and> c_path (setSteps S c) = c_path c"
  by (simp add: getSteps_def setSteps_def getId_def getLabel_def)

section \<open>Lifecycle and authentication defaults\<close>

text \<open>
  C4. For every callback, the default \<^verbatim>\<open>runStarted(cb)\<close> is one invocation of \<open>cb\<close> with no
  arguments, made before \<^verbatim>\<open>runStarted\<close> returns: its result and its effect on the world are
  those of that invocation, and a callback that logs its invocations has logged exactly
  one, with the empty argument list, when \<^verbatim>\<open>runStarted\<close> is back.
\<close>

theorem runStarted_invokes_once:
  "runStarted cb w = cb [] w \<and> runStarted log_call (h, l) = (JUndefined, h, l @ [[]])"
  by (simp add: runStarted_def log_call_def)

text \<open>
  C3. For all arguments, the default \<^verbatim>\<open>authCallback\<close> and the default \<^verbatim>\<open>connectDataSource\<close>
  each invoke their callback exactly once, with a single argument: a new object whose
  properties are \<^verbatim>\<open>message: 'Not Authorized'\<close> and \<^verbatim>\<open>code: 401\<close>. No second argument, the
  success value, is passed.
\<close>

theorem default_auth_unauthorized:
  "authCallback oAuthCode pipeId cb (h, u) = cb [JRef (fresh h)] (snd (alloc unauthorized h), u)
   \<and> connectDataSource req res pipeId url cb (h, u)
       = cb [JRef (fresh h)] (snd (alloc unauthorized h), u)
   \<and> props (objs (snd (alloc unauthorized h)) (fresh h))
       = [''message'' \<mapsto> JStr ''Not Authorized'', ''code'' \<mapsto> JNum 401]
   \<and> snd (snd (authCallback oAuthCode pipeId log_call (h, l))) = l @ [[JRef (fresh h)]]
   \<and> snd (snd (connectDataSource req res pipeId url log_call (h, l))) = l @ [[JRef (fresh h)]]"
  by (simp add: authCallback_def connectDataSource_def alloc_def unauthorized_def
        object_literal_def log_call_def)

text \<open>
  C9. For every \<open>pipe\<close> the default \<^verbatim>\<open>getPassportStrategy(pipe)\<close> returns \<^verbatim>\<open>null\<close>; the default
  \<^verbatim>\<open>getPassportAuthorizationParams()\<close> returns a new object without properties; and for
  every \<open>info\<close> and \<open>pipe\<close> the default \<^verbatim>\<open>passportAuthCallbackPostProcessing\<close> invokes its
  callback exactly once, with no arguments.
\<close>

theorem passport_defaults:
  "getPassportStrategy pipe = JNull
   \<and> fst (getPassportAuthorizationParams h) = JRef (fresh h)
   \<and> objs (snd (getPassportAuthorizationParams h)) (fresh h) = empty_object
   \<and> dom (props empty_object) = {}
   \<and> passportAuthCallbackPostProcessing info pipe cb w = cb [] w
   \<and> passportAuthCallbackPostProcessing info pipe log_call (h, l) = (JUndefined, h, l @ [[]])"
  by (simp add: getPassportStrategy_def getPassportAuthorizationParams_def alloc_def
        empty_object_def object_literal_def passportAuthCallbackPostProcessing_def log_call_def)

section \<open>Serialization\<close>

text \<open>
  C8, as claimed: the \<^verbatim>\<open>path\<close> field of the snapshot is the \<^verbatim>\<open>path\<close> attribute as it is when
  the attribute is present. That fails for a connector whose \<^verbatim>\<open>path\<close> has been set to the
  empty string: the attribute is present, and the snapshot holds \<^verbatim>\<open>null\<close>.
\<close>

theorem toJSON_empty_path_counterexample:
  "c_path (new_connector\<lparr>c_path := Some (JStr '''')\<rparr>) = Some (JStr '''')
   \<and> props (objs (snd (toJSON (new_connector\<lparr>c_path := Some (JStr '''')\<rparr>) new_connector_heap))
        (fresh new_connector_heap)) ''path'' = Some JNull"
  by (simp add: toJSON_def alloc_def object_literal_def or_null_def read_path_def)

text \<open>
  C8, amended. At every state of a connector whose bag is allocated, \<^verbatim>\<open>toJSON()\<close> returns a
  new object with exactly the properties \<^verbatim>\<open>id\<close>, \<^verbatim>\<open>label\<close>, \<^verbatim>\<open>steps\<close>, \<^verbatim>\<open>options\<close> and \<^verbatim>\<open>path\<close>.
  The first three are what \<^verbatim>\<open>getId()\<close>, \<^verbatim>\<open>getLabel()\<close> and \<^verbatim>\<open>getSteps()\<close> return at that moment,
  \<^verbatim>\<open>options\<close> is the bag itself, which the call leaves as it is, and \<^verbatim>\<open>path\<close> is the \<^verbatim>\<open>path\<close>
  attribute when that is present and truthy, and \<^verbatim>\<open>null\<close> otherwise.
\<close>

theorem toJSON_snapshot:
  assumes "c_options c < fresh h"
  shows "fst (toJSON c h) = JRef (fresh h)
    \<and> props (objs (snd (toJSON c h)) (fresh h))
        = [''id'' \<mapsto> getId c, ''label'' \<mapsto> getLabel c, ''steps'' \<mapsto> getSteps c,
           ''options'' \<mapsto> JRef (c_options c),
           ''path'' \<mapsto> (case c_path c of
                          Some v \<Rightarrow> if truthy v then v else JNull
                        | None \<Rightarrow> JNull)]
    \<and> objs (snd (toJSON c h)) (c_options c) = objs h (c_options c)"
  using assms
  by (simp add: toJSON_def alloc_def object_literal_def or_null_def read_path_def
        split: option.splits)

text \<open>
  The amended C8 on a new connector after \<^verbatim>\<open>c.setId(7)\<close> and \<^verbatim>\<open>c.path = '/pipes/db'\<close>.
\<close>

theorem toJSON_snapshot_witness:
  "c_options (setId (JNum 7) (new_connector\<lparr>c_path := Some (JStr ''/pipes/db'')\<rparr>))
     < fresh new_connector_heap
   \<and> props (objs (snd (toJSON (setId (JNum 7) (new_connector\<lparr>c_path := Some (JStr ''/pipes/db'')\<rparr>))
        new_connector_heap)) 3)
      = [''id'' \<mapsto> JNum 7, ''label'' \<mapsto> JNull, ''steps'' \<mapsto> JRef 0, ''options'' \<mapsto> JRef 1,
         ''path'' \<mapsto> JStr ''/pipes/db'']"
  using toJSON_snapshot [of "setId (JNum 7) (new_connector\<lparr>c_path := Some (JStr ''/pipes/db'')\<rparr>)"
      new_connector_heap]
  by (simp add: new_connector_def new_connector_heap_def setId_def getId_def getLabel_def
        getSteps_def)

end
